theory Spec2Isabelle
  imports Complex_Main "HOL-Library.List_Lexorder" "HOL-Library.Char_ord"
begin

section \<open>Numbers of the source\<close>

text \<open>
  The program is Python. Its \<open>float\<close> values (Qt coordinates, areas, scale factors) are
  modelled as \<^typ>\<open>real\<close>, its integers as \<^typ>\<open>int\<close>. The real model is exact wherever
  the floating-point operations of the source are, which is the case for the integer and
  half-integer coordinates the layout works with.
\<close>

datatype py_error = ZeroDivisionError | ValueError | SystemExit

text \<open>
  Python 3's built-in \<open>round(x)\<close> with one argument returns an integer and rounds an exact
  half to the nearest even integer.
\<close>

definition py_round :: "real \<Rightarrow> int" where
  "py_round x =
     (let f = \<lfloor>x\<rfloor>; d = x - of_int f
      in if d < 1 / 2 then f
         else if 1 / 2 < d then f + 1
         else if even f then f else f + 1)"

text \<open>\<open>int(x)\<close> of a float truncates towards zero.\<close>

definition py_int :: "real \<Rightarrow> int" where
  "py_int x = (if 0 \<le> x then \<lfloor>x\<rfloor> else \<lceil>x\<rceil>)"

text \<open>
  The rounding the specification names for \<open>snap\<close>: halves go away from zero.
\<close>

definition round_half_away :: "real \<Rightarrow> int" where
  "round_half_away x = (if 0 \<le> x then \<lfloor>x + 1 / 2\<rfloor> else \<lceil>x - 1 / 2\<rceil>)"

section \<open>Helpers of \<open>gui_min.py\<close>\<close>

text \<open>
  \<open>_snap(v, g) = int(round(v / g) * g)\<close>. The grid \<open>g\<close> is an integer; the division is
  Python's true division and raises for \<open>g = 0\<close>.
\<close>

definition snap :: "real \<Rightarrow> int \<Rightarrow> py_error + int" where
  "snap v g = (if g = 0 then Inl ZeroDivisionError else Inr (py_round (v / of_int g) * g))"

text \<open>\<open>_pair(a, b) = tuple(sorted((a, b)))\<close>, on strings in their lexicographic order.\<close>

definition pair :: "string \<Rightarrow> string \<Rightarrow> string \<times> string" where
  "pair a b = (if b < a then (b, a) else (a, b))"

text \<open>Decimal digits of a natural number, as \<open>str(i)\<close> prints them.\<close>

fun dec_str :: "nat \<Rightarrow> string" where
  "dec_str n =
     (if n < 10 then [char_of (48 + n)]
      else dec_str (n div 10) @ [char_of (48 + n mod 10)])"

declare dec_str.simps [simp del]

text \<open>
  \<open>_expand_bus(name, width)\<close>: the name itself for a width of at most one, otherwise
  \<open>name[0]\<close> up to \<open>name[width-1]\<close>.
\<close>

definition expand_bus :: "string \<Rightarrow> int \<Rightarrow> string list" where
  "expand_bus name width =
     (if width \<le> 1 then [name]
      else map (\<lambda>i. name @ ''['' @ dec_str i @ '']'') [0..<nat width])"

text \<open>
  Endpoint strings: \<open>ep.startswith("top.")\<close>, \<open>ep.split(".", 1)[0]\<close> and
  \<open>ep.split(".", 1)[1]\<close>. The last is only evaluated on strings that start with
  \<open>top.\<close>, which contain a dot.
\<close>

definition is_top :: "string \<Rightarrow> bool" where
  "is_top ep = (take 4 ep = ''top.'')"

definition split_head :: "string \<Rightarrow> string" where
  "split_head ep = takeWhile (\<lambda>c. c \<noteq> CHR ''.'') ep"

definition split_tail :: "string \<Rightarrow> string" where
  "split_tail ep = tl (dropWhile (\<lambda>c. c \<noteq> CHR ''.'') ep)"

section \<open>Rectangles of Qt\<close>

text \<open>
  \<open>QRectF(x, y, w, h)\<close> with the accessors the source uses. \<open>adjusted\<close> and
  \<open>intersects\<close> follow the Qt library: \<open>intersects\<close> normalises negative extents, is
  false for a rectangle of zero width or height, and is false for rectangles that only
  touch.
\<close>

record qrectf =
  rect_x :: real
  rect_y :: real
  rect_w :: real
  rect_h :: real

definition QRectF :: "real \<Rightarrow> real \<Rightarrow> real \<Rightarrow> real \<Rightarrow> qrectf" where
  "QRectF x y w h = \<lparr>rect_x = x, rect_y = y, rect_w = w, rect_h = h\<rparr>"

definition rect_left :: "qrectf \<Rightarrow> real" where "rect_left r = rect_x r"
definition rect_top :: "qrectf \<Rightarrow> real" where "rect_top r = rect_y r"
definition rect_right :: "qrectf \<Rightarrow> real" where "rect_right r = rect_x r + rect_w r"
definition rect_bottom :: "qrectf \<Rightarrow> real" where "rect_bottom r = rect_y r + rect_h r"

definition adjusted :: "qrectf \<Rightarrow> real \<Rightarrow> real \<Rightarrow> real \<Rightarrow> real \<Rightarrow> qrectf" where
  "adjusted r dx1 dy1 dx2 dy2 =
     QRectF (rect_x r + dx1) (rect_y r + dy1) (rect_w r + dx2 - dx1) (rect_h r + dy2 - dy1)"

definition span_lo :: "real \<Rightarrow> real \<Rightarrow> real" where
  "span_lo p e = (if e < 0 then p + e else p)"

definition span_hi :: "real \<Rightarrow> real \<Rightarrow> real" where
  "span_hi p e = (if e < 0 then p else p + e)"

definition intersects :: "qrectf \<Rightarrow> qrectf \<Rightarrow> bool" where
  "intersects a b =
     (let l1 = span_lo (rect_x a) (rect_w a); r1 = span_hi (rect_x a) (rect_w a);
          l2 = span_lo (rect_x b) (rect_w b); r2 = span_hi (rect_x b) (rect_w b);
          t1 = span_lo (rect_y a) (rect_h a); b1 = span_hi (rect_y a) (rect_h a);
          t2 = span_lo (rect_y b) (rect_h b); b2 = span_hi (rect_y b) (rect_h b)
      in if l1 = r1 then False
         else if l2 = r2 then False
         else if r2 \<le> l1 \<or> r1 \<le> l2 then False
         else if t1 = b1 then False
         else if t2 = b2 then False
         else if b2 \<le> t1 \<or> b1 \<le> t2 then False
         else True)"

section \<open>The state of the main window\<close>

text \<open>
  A module of \<open>design.json\<close> together with the \<open>BlockItem\<close> that shows it: the item keeps
  a reference to the module dictionary, its own rectangle (set from \<open>w\<close> and \<open>h\<close>) and its
  scene position. The module's coordinates are integers (they are written with \<open>int\<close>).
\<close>

record block_item =
  inst :: string
  mod_area :: real
  mod_w :: int
  mod_h :: int
  mod_x :: int
  mod_y :: int
  orient :: string
  item_w :: real
  item_h :: real
  pos_x :: real
  pos_y :: real
  constructed :: bool

datatype side = SideN | SideS | SideW | SideE

text \<open>A port of \<open>design.json\<close> and the \<open>PinItem\<close> placed for a port.\<close>

record port =
  port_name :: string
  port_dir :: string
  port_width :: int

record pin_item =
  pin_name :: string
  pin_size :: int
  pin_side :: side
  pin_pos_x :: real
  pin_pos_y :: real

record net =
  net_name :: string
  endpoints :: "string list"
  weight :: int
  bw :: int

record main =
  die_w :: int
  die_h :: int
  margin :: int
  grid :: int
  blocks :: "block_item list"
  ports :: "port list"
  pin_items :: "pin_item list"
  nets :: "net list"

text \<open>\<open>self.core_rect = QRectF(margin, margin, w - 2*margin, h - 2*margin)\<close>.\<close>

definition core_rect :: "main \<Rightarrow> qrectf" where
  "core_rect s =
     QRectF (of_int (margin s)) (of_int (margin s))
       (of_int (die_w s - 2 * margin s)) (of_int (die_h s - 2 * margin s))"

section \<open>Placement validator\<close>

text \<open>\<open>self.HALO_PX = 4\<close>, set once when the window is built.\<close>

definition HALO_PX :: int where
  "HALO_PX = 4"

text \<open>
  \<open>Main._occupied(rect, ignore_inst, halo_px)\<close>: the loop over \<open>self.modules\<close> returns at
  the first module, other than the ignored instance, whose halo-expanded rectangle
  intersects the halo-expanded \<open>rect\<close>.
\<close>

definition module_rect :: "block_item \<Rightarrow> qrectf" where
  "module_rect m = QRectF (of_int (mod_x m)) (of_int (mod_y m)) (of_int (mod_w m)) (of_int (mod_h m))"

definition halo :: "qrectf \<Rightarrow> int \<Rightarrow> qrectf" where
  "halo r hp = adjusted r (- of_int hp) (- of_int hp) (of_int hp) (of_int hp)"

fun occupied_loop :: "qrectf \<Rightarrow> string \<Rightarrow> int \<Rightarrow> block_item list \<Rightarrow> bool" where
  "occupied_loop rx ignore_inst hp [] = False"
| "occupied_loop rx ignore_inst hp (m # ms) =
     (if inst m = ignore_inst then occupied_loop rx ignore_inst hp ms
      else if intersects rx (halo (module_rect m) hp) then True
      else occupied_loop rx ignore_inst hp ms)"

definition occupied :: "main \<Rightarrow> qrectf \<Rightarrow> string \<Rightarrow> int \<Rightarrow> bool" where
  "occupied s rect ignore_inst hp = occupied_loop (halo rect hp) ignore_inst hp (blocks s)"

definition can_place_fn :: "main \<Rightarrow> qrectf \<Rightarrow> string \<Rightarrow> bool" where
  "can_place_fn s new_rect i = (\<not> occupied s new_rect i HALO_PX)"

text \<open>
  \<open>BlockItem.itemChange\<close>, branch \<open>ItemPositionChange\<close>. The proposed point is snapped
  and clamped (\<open>candidate\<close>); the result is the candidate when \<open>can_place\<close> holds for its
  rectangle, and the position stored in the module otherwise.
\<close>

definition candidate :: "main \<Rightarrow> block_item \<Rightarrow> real \<times> real \<Rightarrow> py_error + real \<times> real" where
  "candidate s b v =
     (case snap (fst v) (grid s) of
        Inl e \<Rightarrow> Inl e
      | Inr x \<Rightarrow>
         (case snap (snd v) (grid s) of
            Inl e \<Rightarrow> Inl e
          | Inr y \<Rightarrow>
             (let minx = rect_left (core_rect s); miny = rect_top (core_rect s);
                  maxx = rect_right (core_rect s) - item_w b;
                  maxy = rect_bottom (core_rect s) - item_h b
              in Inr (min (max minx (of_int x)) maxx, min (max miny (of_int y)) maxy))))"

definition position_change :: "main \<Rightarrow> block_item \<Rightarrow> real \<times> real \<Rightarrow> py_error + real \<times> real" where
  "position_change s b v =
     (case candidate s b v of
        Inl e \<Rightarrow> Inl e
      | Inr (x, y) \<Rightarrow>
          if \<not> can_place_fn s (QRectF x y (item_w b) (item_h b)) (inst b)
          then Inr (of_int (mod_x b), of_int (mod_y b))
          else Inr (x, y))"

text \<open>
  Branch \<open>ItemPositionHasChanged\<close>: once the item is constructed, the position is written
  back into the module with \<open>int\<close>.
\<close>

definition position_has_changed :: "block_item \<Rightarrow> block_item" where
  "position_has_changed b =
     (if \<not> constructed b then b
      else b\<lparr>mod_x := py_int (pos_x b), mod_y := py_int (pos_y b)\<rparr>)"

text \<open>
  \<open>QGraphicsItem.setPos\<close> as Qt runs it for an item that sends geometry changes: a call
  with the current position does nothing; otherwise \<open>itemChange(ItemPositionChange)\<close>
  gives the position to install, and if that differs from the current one it is installed
  and \<open>itemChange(ItemPositionHasChanged)\<close> follows.
\<close>

definition set_pos :: "main \<Rightarrow> block_item \<Rightarrow> real \<times> real \<Rightarrow> py_error + block_item" where
  "set_pos s b v =
     (if v = (pos_x b, pos_y b) then Inr b
      else case position_change s b v of
             Inl e \<Rightarrow> Inl e
           | Inr p \<Rightarrow>
               if p = (pos_x b, pos_y b) then Inr b
               else Inr (position_has_changed (b\<lparr>pos_x := fst p, pos_y := snd p\<rparr>)))"

text \<open>
  A move is accepted when the candidate exists and \<open>can_place\<close> holds for it, and rejected
  for a collision when the candidate exists and \<open>can_place\<close> fails.
\<close>

definition accepted :: "main \<Rightarrow> block_item \<Rightarrow> real \<times> real \<Rightarrow> bool" where
  "accepted s b v =
     (case candidate s b v of
        Inl e \<Rightarrow> False
      | Inr (x, y) \<Rightarrow> can_place_fn s (QRectF x y (item_w b) (item_h b)) (inst b))"

definition rejected :: "main \<Rightarrow> block_item \<Rightarrow> real \<times> real \<Rightarrow> bool" where
  "rejected s b v =
     (case candidate s b v of
        Inl e \<Rightarrow> False
      | Inr (x, y) \<Rightarrow> \<not> can_place_fn s (QRectF x y (item_w b) (item_h b)) (inst b))"

section \<open>Perimeter projector\<close>

text \<open>
  \<open>PinItem._project_to_perimeter(x, y)\<close>. The side is
  \<open>min([("N",dN),("S",dS),("W",dW),("E",dE)], key=...)\<close>; Python's \<open>min\<close> keeps the first
  of several minimal elements.
\<close>

definition edge_dist :: "int \<Rightarrow> qrectf \<Rightarrow> real \<Rightarrow> real \<Rightarrow> side \<Rightarrow> real" where
  "edge_dist sz core x y sd =
     (let cx = x + of_int sz / 2; cy = y + of_int sz / 2
      in case sd of
           SideN \<Rightarrow> \<bar>cy - rect_top core\<bar>
         | SideS \<Rightarrow> \<bar>cy - rect_bottom core\<bar>
         | SideW \<Rightarrow> \<bar>cx - rect_left core\<bar>
         | SideE \<Rightarrow> \<bar>cx - rect_right core\<bar>)"

fun min_key :: "('a \<Rightarrow> real) \<Rightarrow> 'a \<Rightarrow> 'a list \<Rightarrow> 'a" where
  "min_key k best [] = best"
| "min_key k best (t # ts) = min_key k (if k t < k best then t else best) ts"

definition nearest_side :: "int \<Rightarrow> qrectf \<Rightarrow> real \<Rightarrow> real \<Rightarrow> side" where
  "nearest_side sz core x y =
     fst (min_key snd (SideN, edge_dist sz core x y SideN)
            [(SideS, edge_dist sz core x y SideS),
             (SideW, edge_dist sz core x y SideW),
             (SideE, edge_dist sz core x y SideE)])"

definition project_to_perimeter ::
  "int \<Rightarrow> int \<Rightarrow> qrectf \<Rightarrow> real \<Rightarrow> real \<Rightarrow> py_error + real \<times> real \<times> side" where
  "project_to_perimeter sz g core x y =
     (case nearest_side sz core x y of
        SideN \<Rightarrow>
          (case snap x g of Inl e \<Rightarrow> Inl e
           | Inr sx \<Rightarrow> Inr (max (rect_left core) (min (of_int sx) (rect_right core - of_int sz)),
                           rect_top core - of_int sz, SideN))
      | SideS \<Rightarrow>
          (case snap x g of Inl e \<Rightarrow> Inl e
           | Inr sx \<Rightarrow> Inr (max (rect_left core) (min (of_int sx) (rect_right core - of_int sz)),
                           rect_bottom core, SideS))
      | SideW \<Rightarrow>
          (case snap y g of Inl e \<Rightarrow> Inl e
           | Inr sy \<Rightarrow> Inr (rect_left core - of_int sz,
                           max (rect_top core) (min (of_int sy) (rect_bottom core - of_int sz)), SideW))
      | SideE \<Rightarrow>
          (case snap y g of Inl e \<Rightarrow> Inl e
           | Inr sy \<Rightarrow> Inr (rect_right core,
                           max (rect_top core) (min (of_int sy) (rect_bottom core - of_int sz)), SideE)))"

text \<open>The priority of the sides in the enumeration of the source.\<close>

fun side_rank :: "side \<Rightarrow> nat" where
  "side_rank SideN = 0"
| "side_rank SideS = 1"
| "side_rank SideW = 2"
| "side_rank SideE = 3"

section \<open>Connectivity of the net list\<close>

text \<open>
  \<open>defaultdict(float)\<close> as the list of its items in insertion order: \<open>d[k] += w\<close> adds to
  the entry of \<open>k\<close>, or appends the entry \<open>0.0 + w\<close> when \<open>k\<close> is new; \<open>d[k]\<close> reads it.
\<close>

fun dict_add :: "('k \<times> real) list \<Rightarrow> 'k \<Rightarrow> real \<Rightarrow> ('k \<times> real) list" where
  "dict_add [] k w = [(k, 0 + w)]"
| "dict_add ((k', v) # d) k w =
     (if k' = k then (k', v + w) # d else (k', v) # dict_add d k w)"

definition dict_get :: "('k \<times> real) list \<Rightarrow> 'k \<Rightarrow> real" where
  "dict_get d k = (case map_of d k of None \<Rightarrow> 0 | Some v \<Rightarrow> v)"

text \<open>
  The index pairs \<open>i < j\<close> of the double loop over \<open>mods\<close>, in the order the loop visits
  them.
\<close>

fun pairs_of :: "'a list \<Rightarrow> ('a \<times> 'a) list" where
  "pairs_of [] = []"
| "pairs_of (x # xs) = map (Pair x) xs @ pairs_of xs"

text \<open>
  One run of an inner loop: for each key, \<open>d[k] += w\<close> and then
  \<open>maxw = max(maxw, d[k])\<close>.
\<close>

fun add_edges :: "'k list \<Rightarrow> real \<Rightarrow> ('k \<times> real) list \<times> real \<Rightarrow> ('k \<times> real) list \<times> real" where
  "add_edges [] w (d, maxw) = (d, maxw)"
| "add_edges (k # ks) w (d, maxw) =
     (let d' = dict_add d k w in add_edges ks w (d', max maxw (dict_get d' k)))"

text \<open>
  The values added to the sets \<open>mods\<close> and \<open>pins\<close> of a net, in the order of its
  endpoints.
\<close>

definition net_mods :: "string list \<Rightarrow> string list" where
  "net_mods eps = map split_head (filter (\<lambda>ep. \<not> is_top ep) eps)"

definition net_pins :: "string list \<Rightarrow> string list" where
  "net_pins eps = map split_tail (filter is_top eps)"

text \<open>
  \<open>Main._build_connectivity\<close>. Python does not fix the order in which a \<open>set\<close> is
  iterated; the parameter \<open>enum\<close> stands for it, giving for the values added to a set the
  list of its elements as \<open>list(mods)\<close> and \<open>for p in pins\<close> see them.
\<close>

definition connect_net ::
  "(string list \<Rightarrow> string list) \<Rightarrow> net \<Rightarrow>
   (((string \<times> string) \<times> real) list \<times> ((string \<times> string) \<times> real) list \<times> real) \<Rightarrow>
   (((string \<times> string) \<times> real) list \<times> ((string \<times> string) \<times> real) list \<times> real)" where
  "connect_net enum n st =
     (case st of (mm, mp, maxw) \<Rightarrow>
        (let w = of_int (bw n);
             mods = enum (net_mods (endpoints n));
             pins = enum (net_pins (endpoints n))
         in case add_edges (map (\<lambda>(a, b). pair a b) (pairs_of mods)) w (mm, maxw) of
              (mm', maxw') \<Rightarrow>
                (case add_edges (List.product mods pins) w (mp, maxw') of
                   (mp', maxw'') \<Rightarrow> (mm', mp', maxw''))))"

record connectivity =
  mm_edges :: "((string \<times> string) \<times> real) list"
  mp_edges :: "((string \<times> string) \<times> real) list"
  max_weight :: real

definition build_connectivity :: "(string list \<Rightarrow> string list) \<Rightarrow> net list \<Rightarrow> connectivity" where
  "build_connectivity enum ns =
     (case fold (connect_net enum) ns ([], [], 0) of
        (mm, mp, maxw) \<Rightarrow>
          \<lparr>mm_edges = mm, mp_edges = mp, max_weight = (if 0 < maxw then maxw else 1)\<rparr>)"



section \<open>Half-perimeter wirelength\<close>

text \<open>
  \<open>self.items\<close> is filled in the order of \<open>self.modules\<close>, a later module of the same
  instance name replacing an earlier one; \<open>self.pin_items\<close> is the list of the items of
  the dictionary of pins.
\<close>

definition items_get :: "main \<Rightarrow> string \<Rightarrow> block_item option" where
  "items_get s i = List.find (\<lambda>b. inst b = i) (rev (blocks s))"

definition pin_items_get :: "main \<Rightarrow> string \<Rightarrow> pin_item option" where
  "pin_items_get s n = List.find (\<lambda>p. pin_name p = n) (pin_items s)"

definition center_block :: "main \<Rightarrow> string \<Rightarrow> (real \<times> real) option" where
  "center_block s i =
     (case items_get s i of
        None \<Rightarrow> None
      | Some it \<Rightarrow> Some (pos_x it + item_w it / 2, pos_y it + item_h it / 2))"

definition center_pin :: "main \<Rightarrow> string \<Rightarrow> (real \<times> real) option" where
  "center_pin s n =
     (case pin_items_get s n of
        None \<Rightarrow> None
      | Some it \<Rightarrow> Some (pin_pos_x it + of_int (pin_size it) / 2,
                         pin_pos_y it + of_int (pin_size it) / 2))"

definition endpoint_center :: "main \<Rightarrow> string \<Rightarrow> (real \<times> real) option" where
  "endpoint_center s ep =
     (if is_top ep then center_pin s (split_tail ep) else center_block s (split_head ep))"

fun hpwl_points :: "main \<Rightarrow> string list \<Rightarrow> (real \<times> real) list \<Rightarrow> (real \<times> real) list" where
  "hpwl_points s [] pts = pts"
| "hpwl_points s (ep # eps) pts =
     (case endpoint_center s ep of
        None \<Rightarrow> hpwl_points s eps pts
      | Some c \<Rightarrow> hpwl_points s eps (pts @ [c]))"

text \<open>\<open>max\<close> and \<open>min\<close> of a list; the source calls them on lists of two or more.\<close>

definition py_max :: "real list \<Rightarrow> real" where
  "py_max xs = fold max (tl xs) (hd xs)"

definition py_min :: "real list \<Rightarrow> real" where
  "py_min xs = fold min (tl xs) (hd xs)"

definition hpwl_net :: "main \<Rightarrow> string list \<Rightarrow> real" where
  "hpwl_net s eps =
     (let pts = hpwl_points s eps []
      in if length pts < 2 then 0
         else let xs = map fst pts; ys = map snd pts
              in (py_max xs - py_min xs) + (py_max ys - py_min ys))"

text \<open>\<open>Main._update_hpwl\<close>: the total over \<open>self.nets[:500]\<close>.\<close>

fun hpwl_total :: "main \<Rightarrow> net list \<Rightarrow> real \<Rightarrow> real" where
  "hpwl_total s [] tot = tot"
| "hpwl_total s (n # ns) tot = hpwl_total s ns (tot + hpwl_net s (endpoints n))"

definition update_hpwl :: "main \<Rightarrow> real" where
  "update_hpwl s = hpwl_total s (take 500 (nets s)) 0"

section \<open>Netlist ingestion (\<open>ingest_netlist.py\<close>)\<close>

text \<open>
  The Yosys netlist, as \<open>json.loads\<close> gives it: dictionaries as the lists of their items
  in file order. A bit is a wire number or one of the constant strings. A key the source
  reads with an empty default (\<open>connections\<close>, \<open>bits\<close>) is an empty list here when absent.
  The \<open>area_hint\<close> attribute is the number \<open>to_float\<close> can read, or \<open>None\<close> when it is
  absent or unreadable.
\<close>

datatype bit = Wire int | Const string

record cell =
  cell_type :: string
  connections :: "(string \<times> bit list) list"

record top_port =
  direction :: string
  port_bits :: "bit list"

record ymodule =
  ym_ports :: "(string \<times> top_port) list"
  ym_cells :: "(string \<times> cell) list"
  ym_netnames :: "(string \<times> bit list) list"
  ym_area_hint :: "real option"

definition to_float :: "real option \<Rightarrow> real \<Rightarrow> real" where
  "to_float v dflt = (case v of None \<Rightarrow> dflt | Some r \<Rightarrow> r)"

text \<open>The ports of the top module: \<open>width = len(bits) or 1\<close>.\<close>

definition design_ports :: "(string \<times> top_port) list \<Rightarrow> port list" where
  "design_ports ps =
     map (\<lambda>(pname, pobj).
            \<lparr>port_name = pname, port_dir = direction pobj,
             port_width = (if port_bits pobj = [] then 1 else int (length (port_bits pobj)))\<rparr>) ps"

subsection \<open>Initial packing\<close>

record mod_base =
  mb_inst :: string
  mb_type :: string
  mb_area :: real
  mb_base :: real

record module_out =
  mo_inst :: string
  mo_type :: string
  mo_area :: real
  mo_w :: int
  mo_h :: int
  mo_orient :: string
  mo_x :: int
  mo_y :: int

text \<open>
  The loop over the cells: \<open>base = max(1.0, math.sqrt(area))\<close>, where \<open>math.sqrt\<close> raises
  \<open>ValueError\<close> for a negative area.
\<close>

fun mods_base_loop :: "(string \<times> ymodule) list \<Rightarrow> (string \<times> cell) list \<Rightarrow> py_error + mod_base list" where
  "mods_base_loop modules [] = Inr []"
| "mods_base_loop modules ((i, cobj) # cs) =
     (let mtype = cell_type cobj;
          attrs = (case map_of modules mtype of None \<Rightarrow> None | Some ym \<Rightarrow> ym_area_hint ym);
          area = to_float attrs 300
      in if area < 0 then Inl ValueError
         else case mods_base_loop modules cs of
                Inl e \<Rightarrow> Inl e
              | Inr ms \<Rightarrow>
                  Inr (\<lparr>mb_inst = i, mb_type = mtype, mb_area = area,
                        mb_base = max 1 (sqrt area)\<rparr> # ms))"

text \<open>
  The row packing loop, with the cursor \<open>x\<close>, \<open>y\<close>, the height \<open>row_h\<close> of the current row
  and the list built so far.
\<close>

fun pack_loop ::
  "int \<Rightarrow> int \<Rightarrow> int \<Rightarrow> real \<Rightarrow> int \<Rightarrow> mod_base list \<Rightarrow> int \<Rightarrow> int \<Rightarrow> int \<Rightarrow>
   module_out list \<Rightarrow> module_out list" where
  "pack_loop dw g cm k min_side [] x y row_h out = out"
| "pack_loop dw g cm k min_side (m # ms) x y row_h out =
     (let side = max min_side (py_round (mb_base m * k));
          wrap = (dw - cm < x + side);
          x1 = (if wrap then cm + g else x);
          y1 = (if wrap then y + (row_h + g) else y);
          row_h1 = (if wrap then 0 else row_h)
      in pack_loop dw g cm k min_side ms (x1 + (side + g)) y1 (max row_h1 side)
           (out @ [\<lparr>mo_inst = mb_inst m, mo_type = mb_type m, mo_area = mb_area m,
                    mo_w = side, mo_h = side, mo_orient = ''N'', mo_x = x1, mo_y = y1\<rparr>]))"

definition build_modules ::
  "(string \<times> ymodule) list \<Rightarrow> (string \<times> cell) list \<Rightarrow> int \<Rightarrow> int \<Rightarrow> int \<Rightarrow> int \<Rightarrow> real \<Rightarrow> int \<Rightarrow>
   py_error + module_out list" where
  "build_modules modules cells dw dh g cm max_side_frac min_side_px =
     (case mods_base_loop modules cells of
        Inl e \<Rightarrow> Inl e
      | Inr mods_base \<Rightarrow>
          (let core_w = max 1 (dw - 2 * cm);
               core_h = max 1 (dh - 2 * cm);
               die_min = min core_w core_h;
               max_base = (if mods_base = [] then 1 else py_max (map mb_base mods_base));
               target_max_side = max min_side_px (py_round (of_int die_min * max_side_frac));
               k = of_int target_max_side / max_base;
               min_side = max (2 * g) min_side_px
           in Inr (pack_loop dw g cm k min_side mods_base (cm + g) (cm + g) 0 [])))"

subsection \<open>Nets from bits\<close>

text \<open>\<open>bit_eps.setdefault(bit, []).append(ep)\<close>.\<close>

definition setdefault_append :: "bit \<Rightarrow> string \<Rightarrow> (bit \<rightharpoonup> string list) \<Rightarrow> (bit \<rightharpoonup> string list)" where
  "setdefault_append b ep m = m(b \<mapsto> (case m b of None \<Rightarrow> [] | Some l \<Rightarrow> l) @ [ep])"

definition bit_eps_cell :: "string \<times> cell \<Rightarrow> (bit \<rightharpoonup> string list) \<Rightarrow> (bit \<rightharpoonup> string list)" where
  "bit_eps_cell ic m =
     fold (\<lambda>(port_name, conn_bits).
             fold (\<lambda>b. setdefault_append b (fst ic @ ''.'' @ port_name)) conn_bits)
       (connections (snd ic)) m"

definition bit_eps_port :: "string \<times> top_port \<Rightarrow> (bit \<rightharpoonup> string list) \<Rightarrow> (bit \<rightharpoonup> string list)" where
  "bit_eps_port pp m = fold (\<lambda>b. setdefault_append b (''top.'' @ fst pp)) (port_bits (snd pp)) m"

definition bit_eps :: "(string \<times> cell) list \<Rightarrow> (string \<times> top_port) list \<Rightarrow> (bit \<rightharpoonup> string list)" where
  "bit_eps cells ps = fold bit_eps_port ps (fold bit_eps_cell cells Map.empty)"

text \<open>\<open>bit_eps.get(bit, [])\<close> and the loop \<open>eps.extend(...)\<close> over the bits of a net.\<close>

definition bit_eps_get :: "(bit \<rightharpoonup> string list) \<Rightarrow> bit \<Rightarrow> string list" where
  "bit_eps_get be b = (case be b of None \<Rightarrow> [] | Some l \<Rightarrow> l)"

definition net_eps :: "(bit \<rightharpoonup> string list) \<Rightarrow> bit list \<Rightarrow> string list" where
  "net_eps be bits = fold (\<lambda>b eps. eps @ bit_eps_get be b) bits []"

text \<open>
  The loop over \<open>netnames\<close>: \<open>eps = sorted(set(eps))\<close>, and the net is appended when it has
  two endpoints or more.
\<close>

fun nets_loop :: "(bit \<rightharpoonup> string list) \<Rightarrow> (string \<times> bit list) list \<Rightarrow> net list \<Rightarrow> net list" where
  "nets_loop be [] out = out"
| "nets_loop be ((nname, bits) # rest) out =
     (let eps = sort (remdups (net_eps be bits))
      in if 2 \<le> length eps
         then nets_loop be rest
                (out @ [\<lparr>net_name = nname, endpoints = eps, weight = int (length eps) - 1,
                         bw = max 1 (int (length bits))\<rparr>])
         else nets_loop be rest out)"

definition nets_out :: "ymodule \<Rightarrow> net list" where
  "nets_out topm = nets_loop (bit_eps (ym_cells topm) (ym_ports topm)) (ym_netnames topm) []"

text \<open>
  \<open>build_design\<close>: the top module must be in the netlist (\<open>SystemExit\<close> otherwise); the
  design holds the die parameters, the packed modules, the ports and the nets.
\<close>

record design =
  d_width :: int
  d_height :: int
  d_grid :: int
  d_core_margin :: int
  d_top :: string
  d_modules :: "module_out list"
  d_ports :: "port list"
  d_nets :: "net list"

definition build_design ::
  "(string \<times> ymodule) list \<Rightarrow> string \<Rightarrow> int \<Rightarrow> int \<Rightarrow> int \<Rightarrow> int \<Rightarrow> real \<Rightarrow> int \<Rightarrow> py_error + design" where
  "build_design modules tp dw dh g cm max_side_frac min_side_px =
     (case map_of modules tp of
        None \<Rightarrow> Inl SystemExit
      | Some topm \<Rightarrow>
          (case build_modules modules (ym_cells topm) dw dh g cm max_side_frac min_side_px of
             Inl e \<Rightarrow> Inl e
           | Inr modules_out \<Rightarrow>
               Inr \<lparr>d_width = dw, d_height = dh, d_grid = g, d_core_margin = cm, d_top = tp,
                    d_modules = modules_out, d_ports = design_ports (ym_ports topm),
                    d_nets = nets_out topm\<rparr>))"

text \<open>The set of endpoints of the bits of a net.\<close>

definition endpoint_set :: "(bit \<rightharpoonup> string list) \<Rightarrow> bit list \<Rightarrow> string set" where
  "endpoint_set be bits = (\<Union>b \<in> set bits. set (bit_eps_get be b))"

text \<open>
  The endpoints of a bit as the netlist declares them: \<open>inst.port\<close> for every cell
  connection that lists the bit, and \<open>top.pin\<close> for every port of the top module whose
  bits list it; and their union over the bits of a net.
\<close>

definition declared_endpoints :: "ymodule \<Rightarrow> bit \<Rightarrow> string set" where
  "declared_endpoints topm b =
     {i @ ''.'' @ pn | i c pn bs.
        (i, c) \<in> set (ym_cells topm) \<and> (pn, bs) \<in> set (connections c) \<and> b \<in> set bs}
     \<union> {''top.'' @ pn | pn p. (pn, p) \<in> set (ym_ports topm) \<and> b \<in> set (port_bits p)}"

definition net_endpoint_union :: "ymodule \<Rightarrow> bit list \<Rightarrow> string set" where
  "net_endpoint_union topm bits = (\<Union>b \<in> set bits. declared_endpoints topm b)"

text \<open>
  The sides of the packed modules, and two module rectangles that do not overlap: one
  ends, in \<open>x\<close> or in \<open>y\<close>, where the other begins or before.
\<close>

definition sides_of :: "py_error + module_out list \<Rightarrow> int list" where
  "sides_of r = (case r of Inl e \<Rightarrow> [] | Inr ms \<Rightarrow> map mo_w ms)"

definition mo_disjoint :: "module_out \<Rightarrow> module_out \<Rightarrow> bool" where
  "mo_disjoint a b \<longleftrightarrow>
     mo_x a + mo_w a \<le> mo_x b \<or> mo_x b + mo_w b \<le> mo_x a
   \<or> mo_y a + mo_h a \<le> mo_y b \<or> mo_y b + mo_h b \<le> mo_y a"

section \<open>Export of the pin placement\<close>

definition PX_TO_UM :: real where
  "PX_TO_UM = 1"

text \<open>\<open>Main._gui_to_ll(x_gui, y_gui, h_box)\<close>.\<close>

definition gui_to_ll :: "main \<Rightarrow> int \<Rightarrow> int \<Rightarrow> int \<Rightarrow> int \<times> int" where
  "gui_to_ll s x_gui y_gui h_box =
     (let x_ll = x_gui;
          y_ll = (if h_box \<noteq> 0 then die_h s - (y_gui + h_box) else die_h s - y_gui)
      in (py_round (of_int x_ll * PX_TO_UM), py_round (of_int y_ll * PX_TO_UM)))"

text \<open>
  \<open>Main._infer_pin_side(it)\<close>: the first key of minimal distance in the dictionary with
  the keys N, S, W, E; the rectangle of a pin item is a square of its size.
\<close>

definition infer_pin_side :: "main \<Rightarrow> pin_item \<Rightarrow> side" where
  "infer_pin_side s it =
     (let cx = pin_pos_x it + of_int (pin_size it) / 2;
          cy = pin_pos_y it + of_int (pin_size it) / 2
      in fst (min_key snd (SideN, \<bar>cy - rect_top (core_rect s)\<bar>)
                [(SideS, \<bar>cy - rect_bottom (core_rect s)\<bar>),
                 (SideW, \<bar>cx - rect_left (core_rect s)\<bar>),
                 (SideE, \<bar>cx - rect_right (core_rect s)\<bar>)]))"

text \<open>
  \<open>Main._pins_grouped_sorted\<close>: the key of a pin along its side, and the group of a
  side, sorted by the key with Python's stable sort.
\<close>

definition pin_key :: "main \<Rightarrow> pin_item \<Rightarrow> int" where
  "pin_key s it =
     (case gui_to_ll s (py_int (pin_pos_x it)) (py_int (pin_pos_y it)) 0 of
        (x_ll, y_ll) \<Rightarrow>
          if infer_pin_side s it = SideN \<or> infer_pin_side s it = SideS
          then x_ll - py_round (rect_left (core_rect s) * PX_TO_UM)
          else y_ll - py_round ((of_int (die_h s) - rect_bottom (core_rect s)) * PX_TO_UM))"

definition pins_grouped_sorted :: "main \<Rightarrow> side \<Rightarrow> (string \<times> int) list" where
  "pins_grouped_sorted s sd =
     sort_key snd
       (map (\<lambda>it. (pin_name it, pin_key s it))
          (filter (\<lambda>it. infer_pin_side s it = sd) (pin_items s)))"

text \<open>
  \<open>Main._write_pin_placement_cfg\<close>. The inner loop runs over the bit names of a pin with
  their index; it returns the lines of the pin and the cursor after the last bit.
\<close>

fun bits_loop ::
  "int \<Rightarrow> int \<Rightarrow> int \<Rightarrow> nat \<Rightarrow> string list \<Rightarrow> int \<Rightarrow> (string \<times> int) list \<times> int" where
  "bits_loop step_um max_off start i [] cursor = ([], cursor)"
| "bits_loop step_um max_off start i (bit_name # rest) cursor =
     (let off0 = start + int i * step_um;
          off1 = max 0 (min off0 max_off);
          off = (if off1 \<le> cursor then min (cursor + step_um) max_off else off1)
      in case bits_loop step_um max_off start (Suc i) rest off of
           (ls, c) \<Rightarrow> ((bit_name, off) # ls, c))"

definition port_width_of :: "main \<Rightarrow> string \<Rightarrow> int" where
  "port_width_of s name =
     (case List.find (\<lambda>p. port_name p = name) (ports s) of
        None \<Rightarrow> 1
      | Some p \<Rightarrow> port_width p)"

fun pins_loop :: "main \<Rightarrow> int \<Rightarrow> int \<Rightarrow> (string \<times> int) list \<Rightarrow> int \<Rightarrow> (string \<times> int) list" where
  "pins_loop s step_um max_off [] cursor = []"
| "pins_loop s step_um max_off ((name, base) # rest) cursor =
     (let width = port_width_of s name;
          total_span = step_um * (width - 1);
          ideal_start = py_round (of_int base - of_int total_span / 2);
          lo = max 0 (cursor + step_um);
          hi = max 0 (max_off - total_span);
          start = max lo (min ideal_start hi)
      in case bits_loop step_um max_off start 0 (expand_bus name width) cursor of
           (ls, c) \<Rightarrow> ls @ pins_loop s step_um max_off rest c)"

definition step_um :: "main \<Rightarrow> int" where
  "step_um s = max (py_round (of_int (grid s) * PX_TO_UM)) 1"

definition side_max_off :: "main \<Rightarrow> side \<Rightarrow> int" where
  "side_max_off s sd =
     (let core_left_um = py_round (rect_left (core_rect s) * PX_TO_UM);
          core_right_um = py_round (rect_right (core_rect s) * PX_TO_UM);
          core_top_um = py_round ((of_int (die_h s) - rect_top (core_rect s)) * PX_TO_UM);
          core_bot_um = py_round ((of_int (die_h s) - rect_bottom (core_rect s)) * PX_TO_UM)
      in if sd = SideN \<or> sd = SideS then core_right_um - core_left_um
         else core_top_um - core_bot_um)"

text \<open>
  The lines of one side, as the bit name, the side and the offset, and the whole file:
  the sides in the order N, S, E, W, each with the cursor starting at \<open>-10**9\<close>.
\<close>

definition side_lines :: "main \<Rightarrow> side \<Rightarrow> (string \<times> side \<times> int) list" where
  "side_lines s sd =
     map (\<lambda>(bit_name, off). (bit_name, sd, off))
       (pins_loop s (step_um s) (side_max_off s sd) (pins_grouped_sorted s sd) (- (10 ^ 9)))"

definition write_pin_placement_cfg :: "main \<Rightarrow> (string \<times> side \<times> int) list" where
  "write_pin_placement_cfg s = concat (map (side_lines s) [SideN, SideS, SideE, SideW])"

text \<open>The offsets of the lines of one side, in the order of the file.\<close>

definition side_offsets :: "main \<Rightarrow> side \<Rightarrow> int list" where
  "side_offsets s sd =
     map (\<lambda>l. snd (snd l)) (filter (\<lambda>l. fst (snd l) = sd) (write_pin_placement_cfg s))"

section \<open>Example states\<close>

text \<open>
  A constructed square block whose item is in step with its module, and a window holding
  blocks only. They give the concrete inputs of the evaluated examples.
\<close>

definition square_block :: "string \<Rightarrow> int \<Rightarrow> int \<Rightarrow> int \<Rightarrow> block_item" where
  "square_block i x y d =
     \<lparr>inst = i, mod_area = 300, mod_w = d, mod_h = d, mod_x = x, mod_y = y, orient = ''N'',
      item_w = of_int d, item_h = of_int d, pos_x = of_int x, pos_y = of_int y,
      constructed = True\<rparr>"

definition window :: "int \<Rightarrow> int \<Rightarrow> int \<Rightarrow> int \<Rightarrow> block_item list \<Rightarrow> main" where
  "window w h m g bs =
     \<lparr>die_w = w, die_h = h, margin = m, grid = g, blocks = bs,
      ports = [], pin_items = [], nets = []\<rparr>"

text \<open>
  A top module with the port \<open>clk\<close> on wire 2, the cells \<open>u1\<close> (port \<open>d\<close> on wires 2 and
  3, port \<open>q\<close> on wire 3) and \<open>u2\<close> (port \<open>d\<close> on wire 2), and three declared nets.
\<close>

definition example_top :: ymodule where
  "example_top =
     \<lparr>ym_ports = [(''clk'', \<lparr>direction = ''input'', port_bits = [Wire 2]\<rparr>)],
      ym_cells =
        [(''u1'', \<lparr>cell_type = ''A'',
                   connections = [(''d'', [Wire 2, Wire 3]), (''q'', [Wire 3])]\<rparr>),
         (''u2'', \<lparr>cell_type = ''B'', connections = [(''d'', [Wire 2])]\<rparr>)],
      ym_netnames = [(''clk'', [Wire 2]), (''fb'', [Wire 3, Wire 3]), (''nc'', [Wire 9])],
      ym_area_hint = None\<rparr>"

text \<open>
  A netlist whose top module has the cells \<open>u1\<close> of a type with \<open>area_hint\<close> 100 and
  \<open>u2\<close> of a type with \<open>area_hint\<close> 400.
\<close>

definition two_cells :: "(string \<times> cell) list" where
  "two_cells =
     [(''u1'', \<lparr>cell_type = ''small'', connections = []\<rparr>),
      (''u2'', \<lparr>cell_type = ''big'', connections = []\<rparr>)]"

definition two_modules :: "(string \<times> ymodule) list" where
  "two_modules =
     [(''top'', \<lparr>ym_ports = [], ym_cells = two_cells, ym_netnames = [], ym_area_hint = None\<rparr>),
      (''small'', \<lparr>ym_ports = [], ym_cells = [], ym_netnames = [], ym_area_hint = Some 100\<rparr>),
      (''big'', \<lparr>ym_ports = [], ym_cells = [], ym_netnames = [], ym_area_hint = Some 400\<rparr>)]"

text \<open>
  A netlist with the top module \<open>example_top\<close> and the types of its two cells, with the
  \<open>area_hint\<close> 100 and 400.
\<close>

definition example_netlist :: "(string \<times> ymodule) list" where
  "example_netlist =
     [(''top'', example_top),
      (''A'', \<lparr>ym_ports = [], ym_cells = [], ym_netnames = [], ym_area_hint = Some 100\<rparr>),
      (''B'', \<lparr>ym_ports = [], ym_cells = [], ym_netnames = [], ym_area_hint = Some 400\<rparr>)]"

text \<open>
  A window of 1000 by 1000 with margin 40 and grid 20, the blocks \<open>u1\<close> (40 by 40 at
  \<open>(100, 100)\<close>) and \<open>u2\<close> (80 by 80 at \<open>(300, 200)\<close>), the pin \<open>clk\<close> of size 16 at
  \<open>(200, 24)\<close>, and two nets with endpoints that name no block.
\<close>

definition wire_window :: main where
  "wire_window =
     \<lparr>die_w = 1000, die_h = 1000, margin = 40, grid = 20,
      blocks = [square_block ''u1'' 100 100 40, square_block ''u2'' 300 200 80],
      ports = [\<lparr>port_name = ''clk'', port_dir = ''input'', port_width = 1\<rparr>],
      pin_items = [\<lparr>pin_name = ''clk'', pin_size = 16, pin_side = SideN,
                    pin_pos_x = 200, pin_pos_y = 24\<rparr>],
      nets = [\<lparr>net_name = ''n1'', endpoints = [''top.clk'', ''u1.d'', ''u2.d'', ''u9.z''],
                weight = 3, bw = 1\<rparr>,
              \<lparr>net_name = ''n2'', endpoints = [''u1.q'', ''u9.a''], weight = 1, bw = 1\<rparr>]\<rparr>"

text \<open>
  A window of 1000 by 1000 with margin 40 and grid 20 (the core is 920 wide, with 47
  positions a step apart) and two pins of width 8 on the north side, at \<open>x = 920\<close> and
  \<open>x = 940\<close>.
\<close>

definition two_bus_window :: main where
  "two_bus_window =
     \<lparr>die_w = 1000, die_h = 1000, margin = 40, grid = 20, blocks = [],
      ports = [\<lparr>port_name = ''a'', port_dir = ''input'', port_width = 8\<rparr>,
               \<lparr>port_name = ''b'', port_dir = ''input'', port_width = 8\<rparr>],
      pin_items = [\<lparr>pin_name = ''a'', pin_size = 16, pin_side = SideN,
                    pin_pos_x = 920, pin_pos_y = 24\<rparr>,
                   \<lparr>pin_name = ''b'', pin_size = 16, pin_side = SideN,
                    pin_pos_x = 940, pin_pos_y = 24\<rparr>],
      nets = []\<rparr>"

section \<open>Rounding and snapping\<close>

lemma py_round_of_int [simp]: "py_round (of_int n) = n"
  by (simp add: py_round_def)

lemma py_int_of_int [simp]: "py_int (of_int n) = n"
  by (simp add: py_int_def)

lemma py_round_near: "\<bar>x - of_int (py_round x)\<bar> \<le> 1 / 2"
  unfolding py_round_def Let_def by (auto; linarith)

lemma py_round_tie_even: "\<bar>x - of_int (py_round x)\<bar> = 1 / 2 \<Longrightarrow> even (py_round x)"
  unfolding py_round_def Let_def by (auto split: if_splits; linarith)

text \<open>
  C3 (as stated): \<open>snap\<close> rounds the ratio half away from zero. The value 10 on a grid of 20
  has ratio one half; the code returns 0, the stated rounding gives 20.
\<close>

theorem snap_half_away_counterexample:
  "snap 10 20 = Inr 0 \<and> snap 10 20 \<noteq> Inr (round_half_away (10 / 20) * 20)"
  by (simp add: snap_def py_round_def round_half_away_def)

text \<open>
  C3 (amended): for a positive grid, \<open>snap v g\<close> is \<open>n * g\<close> for an integer \<open>n\<close> at distance
  at most one half from the ratio \<open>v / g\<close>, and an exact half goes to the even neighbour.
\<close>

theorem snap_nearest_even:
  "0 < g \<Longrightarrow>
   \<exists>n. snap v g = Inr (n * g) \<and> \<bar>v / of_int g - of_int n\<bar> \<le> 1 / 2
     \<and> (\<bar>v / of_int g - of_int n\<bar> = 1 / 2 \<longrightarrow> even n)"
proof -
  assume "0 < g"
  let ?n = "py_round (v / of_int g)"
  have "snap v g = Inr (?n * g)" using \<open>0 < g\<close> by (simp add: snap_def)
  moreover have "\<bar>v / of_int g - of_int ?n\<bar> \<le> 1 / 2" by (rule py_round_near)
  moreover have "\<bar>v / of_int g - of_int ?n\<bar> = 1 / 2 \<longrightarrow> even ?n"
    using py_round_tie_even by blast
  ultimately show ?thesis by blast
qed

theorem snap_nearest_even_witness:
  "(0::int) < 20 \<and>
   (\<exists>n. snap 30 20 = Inr (n * 20) \<and> \<bar>30 / of_int 20 - of_int n\<bar> \<le> (1 / 2 :: real)
     \<and> (\<bar>30 / of_int 20 - of_int n\<bar> = (1 / 2 :: real) \<longrightarrow> even n))"
  using snap_nearest_even [of 20 30] by simp

section \<open>Perimeter projection\<close>

lemma nearest_side_min:
  "edge_dist sz core x y (nearest_side sz core x y) \<le> edge_dist sz core x y t"
  unfolding nearest_side_def by (cases t) (auto split: if_splits)

lemma nearest_side_first:
  "side_rank t < side_rank (nearest_side sz core x y) \<Longrightarrow>
   edge_dist sz core x y (nearest_side sz core x y) < edge_dist sz core x y t"
  unfolding nearest_side_def by (cases t) (auto split: if_splits)

text \<open>
  C4 (as stated): after projection the fixed coordinate of the pin position equals the
  Core edge. For the north side the code puts the pin above the edge: with the core
  \<open>[40, 960] \<times> [40, 960]\<close>, a pin of sz 16 and the grid 20, the point \<open>(100, 50)\<close> is
  projected to \<open>(100, 24)\<close> on side N, and 24 is not the top edge 40.
\<close>

theorem project_edge_counterexample:
  "project_to_perimeter 16 20 (QRectF 40 40 920 920) 100 50 = Inr (100, 24, SideN)
   \<and> (24 :: real) \<noteq> rect_top (QRectF 40 40 920 920)"
  by (simp add: project_to_perimeter_def nearest_side_def edge_dist_def snap_def py_round_def
      QRectF_def rect_top_def rect_bottom_def rect_left_def rect_right_def)

text \<open>
  C4 (amended): for a non-zero grid and a pin no larger than the core, the projection
  returns the side of minimum centre-to-edge distance, the first in the order N, S, W, E
  among equals; the pin square lies outside the core flush with that edge (N: its lower
  edge \<open>y + sz\<close> is the core's top; S: \<open>y\<close> is the core's bottom; W: its right edge
  \<open>x + sz\<close> is the core's left; E: \<open>x\<close> is the core's right); the other coordinate lies
  in \<open>[sideStart, sideEnd - sz]\<close>.
\<close>

theorem project_to_perimeter_flush:
  assumes "g \<noteq> 0"
    and "of_int sz \<le> rect_w core" and "of_int sz \<le> rect_h core"
  shows "\<exists>px py sd. project_to_perimeter sz g core x y = Inr (px, py, sd)
     \<and> (\<forall>t. edge_dist sz core x y sd \<le> edge_dist sz core x y t
            \<and> (side_rank t < side_rank sd \<longrightarrow>
                  edge_dist sz core x y sd < edge_dist sz core x y t))
     \<and> (sd = SideN \<longrightarrow> py + of_int sz = rect_top core
            \<and> rect_left core \<le> px \<and> px \<le> rect_right core - of_int sz)
     \<and> (sd = SideS \<longrightarrow> py = rect_bottom core
            \<and> rect_left core \<le> px \<and> px \<le> rect_right core - of_int sz)
     \<and> (sd = SideW \<longrightarrow> px + of_int sz = rect_left core
            \<and> rect_top core \<le> py \<and> py \<le> rect_bottom core - of_int sz)
     \<and> (sd = SideE \<longrightarrow> px = rect_right core
            \<and> rect_top core \<le> py \<and> py \<le> rect_bottom core - of_int sz)"
proof -
  let ?sd = "nearest_side sz core x y"
  have order: "\<forall>t. edge_dist sz core x y ?sd \<le> edge_dist sz core x y t
            \<and> (side_rank t < side_rank ?sd \<longrightarrow>
                  edge_dist sz core x y ?sd < edge_dist sz core x y t)"
    using nearest_side_min nearest_side_first by blast
  have lr: "rect_left core \<le> rect_right core - of_int sz"
    using assms(2) by (simp add: rect_left_def rect_right_def)
  have tb: "rect_top core \<le> rect_bottom core - of_int sz"
    using assms(3) by (simp add: rect_top_def rect_bottom_def)
  show ?thesis
  proof (cases ?sd)
    case SideN
    then show ?thesis using order lr assms(1)
      by (simp add: project_to_perimeter_def snap_def)
  next
    case SideS
    then show ?thesis using order lr assms(1)
      by (simp add: project_to_perimeter_def snap_def)
  next
    case SideW
    then show ?thesis using order tb assms(1)
      by (simp add: project_to_perimeter_def snap_def)
  next
    case SideE
    then show ?thesis using order tb assms(1)
      by (simp add: project_to_perimeter_def snap_def)
  qed
qed

theorem project_to_perimeter_flush_witness:
  "\<exists>px py sd. project_to_perimeter 16 20 (QRectF 40 40 920 920) 100 50 = Inr (px, py, sd)
     \<and> (\<forall>t. edge_dist 16 (QRectF 40 40 920 920) 100 50 sd
               \<le> edge_dist 16 (QRectF 40 40 920 920) 100 50 t
            \<and> (side_rank t < side_rank sd \<longrightarrow>
                  edge_dist 16 (QRectF 40 40 920 920) 100 50 sd
                    < edge_dist 16 (QRectF 40 40 920 920) 100 50 t))
     \<and> (sd = SideN \<longrightarrow> py + of_int 16 = rect_top (QRectF 40 40 920 920)
            \<and> rect_left (QRectF 40 40 920 920) \<le> px \<and> px \<le> rect_right (QRectF 40 40 920 920) - of_int 16)
     \<and> (sd = SideS \<longrightarrow> py = rect_bottom (QRectF 40 40 920 920)
            \<and> rect_left (QRectF 40 40 920 920) \<le> px \<and> px \<le> rect_right (QRectF 40 40 920 920) - of_int 16)
     \<and> (sd = SideW \<longrightarrow> px + of_int 16 = rect_left (QRectF 40 40 920 920)
            \<and> rect_top (QRectF 40 40 920 920) \<le> py \<and> py \<le> rect_bottom (QRectF 40 40 920 920) - of_int 16)
     \<and> (sd = SideE \<longrightarrow> px = rect_right (QRectF 40 40 920 920)
            \<and> rect_top (QRectF 40 40 920 920) \<le> py \<and> py \<le> rect_bottom (QRectF 40 40 920 920) - of_int 16)"
  by (rule project_to_perimeter_flush) (simp_all add: QRectF_def)

section \<open>Placement validation\<close>

lemma occupied_loop_iff:
  "occupied_loop rx i hp ms \<longleftrightarrow>
     (\<exists>m \<in> set ms. inst m \<noteq> i \<and> intersects rx (halo (module_rect m) hp))"
  by (induction ms) auto

lemma can_place_fn_iff:
  "can_place_fn s r i \<longleftrightarrow>
     (\<forall>m \<in> set (blocks s). inst m \<noteq> i \<longrightarrow>
        \<not> intersects (halo r HALO_PX) (halo (module_rect m) HALO_PX))"
  by (auto simp: can_place_fn_def occupied_def occupied_loop_iff)

lemma candidate_in_core:
  assumes "candidate s b v = Inr (x, y)"
    and "item_w b \<le> rect_w (core_rect s)" and "item_h b \<le> rect_h (core_rect s)"
  shows "rect_left (core_rect s) \<le> x \<and> x + item_w b \<le> rect_right (core_rect s)
       \<and> rect_top (core_rect s) \<le> y \<and> y + item_h b \<le> rect_bottom (core_rect s)"
  using assms
  by (auto simp: candidate_def Let_def rect_left_def rect_right_def rect_top_def rect_bottom_def
      split: sum.splits)

text \<open>
  C5 (as stated): every accepted move ends inside the Core. A module larger than the core
  is clamped to \<open>right - w\<close>, left of the core: on a die of 100 by 100 with margin 40 (core
  \<open>[40, 60] \<times> [40, 60]\<close>) a module of 40 by 40 is accepted at \<open>(20, 20)\<close>.
\<close>

theorem accepted_outside_core_counterexample:
  "accepted (window 100 100 40 20 [square_block ''u1'' 40 40 40])
     (square_block ''u1'' 40 40 40) (45, 45)
   \<and> position_change (window 100 100 40 20 [square_block ''u1'' 40 40 40])
     (square_block ''u1'' 40 40 40) (45, 45) = Inr (20, 20)
   \<and> (20 :: real) < rect_left (core_rect (window 100 100 40 20 [square_block ''u1'' 40 40 40]))"
  by (simp add: accepted_def position_change_def candidate_def can_place_fn_def occupied_def
      snap_def py_round_def core_rect_def QRectF_def rect_left_def rect_right_def rect_top_def
      rect_bottom_def window_def square_block_def)

text \<open>
  C5 (amended): for a module no larger than the core, every accepted move returns the
  snapped and clamped position, the module rectangle at that position lies within the Core
  bounds, and its rectangle expanded by the halo of 4 units intersects the halo-expanded
  rectangle of no module with another instance name.
\<close>

theorem accepted_move_in_core_and_clear:
  assumes "accepted s b v"
    and "item_w b \<le> rect_w (core_rect s)" and "item_h b \<le> rect_h (core_rect s)"
  shows "\<exists>x y. position_change s b v = Inr (x, y) \<and> candidate s b v = Inr (x, y)
     \<and> rect_left (core_rect s) \<le> x \<and> x + item_w b \<le> rect_right (core_rect s)
     \<and> rect_top (core_rect s) \<le> y \<and> y + item_h b \<le> rect_bottom (core_rect s)
     \<and> HALO_PX = 4
     \<and> (\<forall>m \<in> set (blocks s). inst m \<noteq> inst b \<longrightarrow>
           \<not> intersects (halo (QRectF x y (item_w b) (item_h b)) HALO_PX)
                (halo (module_rect m) HALO_PX))"
proof -
  from assms(1) obtain x y where c: "candidate s b v = Inr (x, y)"
    and ok: "can_place_fn s (QRectF x y (item_w b) (item_h b)) (inst b)"
    by (auto simp: accepted_def split: sum.splits)
  have "position_change s b v = Inr (x, y)"
    using c ok by (simp add: position_change_def)
  moreover note candidate_in_core [OF c assms(2) assms(3)]
  moreover have "\<forall>m \<in> set (blocks s). inst m \<noteq> inst b \<longrightarrow>
           \<not> intersects (halo (QRectF x y (item_w b) (item_h b)) HALO_PX)
                (halo (module_rect m) HALO_PX)"
    using ok by (simp add: can_place_fn_iff)
  ultimately show ?thesis using c by (simp add: HALO_PX_def)
qed

theorem accepted_move_in_core_and_clear_witness:
  "accepted (window 1000 1000 40 20 [square_block ''u1'' 40 40 40, square_block ''u2'' 200 40 40])
     (square_block ''u1'' 40 40 40) (105, 95)
   \<and> position_change
       (window 1000 1000 40 20 [square_block ''u1'' 40 40 40, square_block ''u2'' 200 40 40])
       (square_block ''u1'' 40 40 40) (105, 95) = Inr (100, 100)
   \<and> \<not> intersects (halo (QRectF 100 100 40 40) HALO_PX)
         (halo (module_rect (square_block ''u2'' 200 40 40)) HALO_PX)"
proof -
  let ?s = "window 1000 1000 40 20 [square_block ''u1'' 40 40 40, square_block ''u2'' 200 40 40]"
  let ?b = "square_block ''u1'' 40 40 40"
  have c: "candidate ?s ?b (105, 95) = Inr (100, 100)"
    by (simp add: candidate_def snap_def py_round_def core_rect_def QRectF_def rect_left_def
        rect_right_def rect_top_def rect_bottom_def window_def square_block_def)
  have a: "accepted ?s ?b (105, 95)"
    unfolding accepted_def c
    by (simp add: can_place_fn_def occupied_def halo_def adjusted_def module_rect_def
        intersects_def span_lo_def span_hi_def QRectF_def HALO_PX_def window_def square_block_def)
  have w: "item_w ?b \<le> rect_w (core_rect ?s)" "item_h ?b \<le> rect_h (core_rect ?s)"
    by (simp_all add: core_rect_def QRectF_def window_def square_block_def)
  from accepted_move_in_core_and_clear [OF a w] c a show ?thesis
    by (simp add: window_def square_block_def)
qed

text \<open>
  C6: when a proposed move is rejected for a collision, \<open>itemChange\<close> returns the position
  stored in the module; Qt installs it, the module keeps its coordinates and size, and an
  item that was in step with its module is left exactly as it was.
\<close>

theorem rejected_move_keeps_position:
  assumes "rejected s b v"
  shows "position_change s b v = Inr (of_int (mod_x b), of_int (mod_y b))
     \<and> (\<exists>b'. set_pos s b v = Inr b'
            \<and> mod_x b' = mod_x b \<and> mod_y b' = mod_y b
            \<and> mod_w b' = mod_w b \<and> mod_h b' = mod_h b
            \<and> (pos_x b = of_int (mod_x b) \<and> pos_y b = of_int (mod_y b) \<longrightarrow> b' = b))"
proof -
  from assms obtain x y where c: "candidate s b v = Inr (x, y)"
    and no: "\<not> can_place_fn s (QRectF x y (item_w b) (item_h b)) (inst b)"
    by (auto simp: rejected_def split: sum.splits)
  have pc: "position_change s b v = Inr (of_int (mod_x b), of_int (mod_y b))"
    using c no by (simp add: position_change_def)
  show ?thesis
    unfolding pc by (simp add: set_pos_def pc position_has_changed_def)
qed

theorem rejected_move_keeps_position_witness:
  "rejected (window 1000 1000 40 20 [square_block ''u1'' 40 40 40, square_block ''u2'' 200 40 40])
     (square_block ''u1'' 40 40 40) (195, 45)
   \<and> set_pos (window 1000 1000 40 20 [square_block ''u1'' 40 40 40, square_block ''u2'' 200 40 40])
     (square_block ''u1'' 40 40 40) (195, 45) = Inr (square_block ''u1'' 40 40 40)"
proof -
  let ?s = "window 1000 1000 40 20 [square_block ''u1'' 40 40 40, square_block ''u2'' 200 40 40]"
  let ?b = "square_block ''u1'' 40 40 40"
  have c: "candidate ?s ?b (195, 45) = Inr (200, 40)"
    by (simp add: candidate_def snap_def py_round_def core_rect_def QRectF_def rect_left_def
        rect_right_def rect_top_def rect_bottom_def window_def square_block_def)
  have r: "rejected ?s ?b (195, 45)"
    unfolding rejected_def c
    by (simp add: can_place_fn_def occupied_def halo_def adjusted_def module_rect_def
        intersects_def span_lo_def span_hi_def QRectF_def HALO_PX_def window_def square_block_def)
  have "pos_x ?b = of_int (mod_x ?b) \<and> pos_y ?b = of_int (mod_y ?b)"
    by (simp add: square_block_def)
  with rejected_move_keeps_position [OF r] r show ?thesis by auto
qed

section \<open>Half-perimeter wirelength\<close>

lemma hpwl_points_eq:
  "hpwl_points s eps pts = pts @ List.map_filter (endpoint_center s) eps"
  by (induction eps arbitrary: pts) (auto simp: List.map_filter_simps split: option.splits)

lemma fold_max_Max: "fold max xs (x :: real) = Max (set (x # xs))"
  using Max.set_eq_fold [of x xs] by simp

lemma fold_min_Min: "fold min xs (x :: real) = Min (set (x # xs))"
  using Min.set_eq_fold [of x xs] by simp

lemma py_max_Max: "xs \<noteq> [] \<Longrightarrow> py_max xs = Max (set xs)"
  by (cases xs) (simp_all add: py_max_def fold_max_Max)

lemma py_min_Min: "xs \<noteq> [] \<Longrightarrow> py_min xs = Min (set xs)"
  by (cases xs) (simp_all add: py_min_def fold_min_Min)

lemma hpwl_total_eq:
  "hpwl_total s ns tot = tot + (\<Sum>n\<leftarrow>ns. hpwl_net s (endpoints n))"
  by (induction ns arbitrary: tot) simp_all

lemma hpwl_net_eq:
  "hpwl_net s eps =
     (let pts = List.map_filter (endpoint_center s) eps
      in if length pts < 2 then 0
         else (Max (fst ` set pts) - Min (fst ` set pts))
            + (Max (snd ` set pts) - Min (snd ` set pts)))"
proof -
  let ?pts = "List.map_filter (endpoint_center s) eps"
  have p: "hpwl_points s eps [] = ?pts" by (simp add: hpwl_points_eq)
  have "hpwl_net s eps =
     (if length ?pts < 2 then 0
      else (Max (fst ` set ?pts) - Min (fst ` set ?pts))
         + (Max (snd ` set ?pts) - Min (snd ` set ?pts)))"
  proof (cases "length ?pts < 2")
    case True
    then show ?thesis by (simp add: hpwl_net_def p)
  next
    case False
    then have ne: "map fst ?pts \<noteq> []" "map snd ?pts \<noteq> []" by auto
    show ?thesis using False
      by (simp add: hpwl_net_def p Let_def py_max_Max [OF ne(1)] py_min_Min [OF ne(1)]
          py_max_Max [OF ne(2)] py_min_Min [OF ne(2)])
  qed
  then show ?thesis by (simp add: Let_def)
qed

lemma split_tail_top: "take 4 ep = ''top.'' \<Longrightarrow> split_tail ep = drop 4 ep"
proof -
  assume t: "take 4 ep = ''top.''"
  have "ep = take 4 ep @ drop 4 ep" by simp
  then have "ep = ''top.'' @ drop 4 ep" using t by simp
  then have "split_tail ep = split_tail (''top.'' @ drop 4 ep)" by simp
  also have "\<dots> = drop 4 ep" by (simp add: split_tail_def)
  finally show ?thesis .
qed

lemma endpoint_center_eq:
  "endpoint_center s ep =
     (if take 4 ep = ''top.''
      then map_option
             (\<lambda>it. (pin_pos_x it + of_int (pin_size it) / 2,
                    pin_pos_y it + of_int (pin_size it) / 2))
             (List.find (\<lambda>it. pin_name it = drop 4 ep) (pin_items s))
      else map_option
             (\<lambda>b. (pos_x b + item_w b / 2, pos_y b + item_h b / 2))
             (List.find (\<lambda>b. inst b = takeWhile (\<lambda>c. c \<noteq> CHR ''.'') ep) (rev (blocks s))))"
  by (auto simp: endpoint_center_def is_top_def center_pin_def center_block_def
      pin_items_get_def items_get_def split_head_def split_tail_top split: option.splits)

text \<open>
  C9: an endpoint that starts with \<open>top.\<close> resolves to the centre of the pin item named by
  the rest of the string, any other endpoint to the centre of the block whose instance
  name is the part before the first dot; an endpoint that names no pin or block is
  skipped. With fewer than two resolved points the HPWL of the net is 0, otherwise it is
  \<open>(max x - min x) + (max y - min y)\<close> over the resolved centres; the total is the sum of
  the HPWL of the first 500 nets in declaration order.
\<close>

theorem hpwl_net_and_total:
  "hpwl_net s eps =
     (let pts = List.map_filter
            (\<lambda>ep. if take 4 ep = ''top.''
                  then map_option
                         (\<lambda>it. (pin_pos_x it + of_int (pin_size it) / 2,
                                pin_pos_y it + of_int (pin_size it) / 2))
                         (List.find (\<lambda>it. pin_name it = drop 4 ep) (pin_items s))
                  else map_option
                         (\<lambda>b. (pos_x b + item_w b / 2, pos_y b + item_h b / 2))
                         (List.find (\<lambda>b. inst b = takeWhile (\<lambda>c. c \<noteq> CHR ''.'') ep)
                            (rev (blocks s))))
            eps
      in if length pts < 2 then 0
         else (Max (fst ` set pts) - Min (fst ` set pts))
            + (Max (snd ` set pts) - Min (snd ` set pts)))
   \<and> update_hpwl s = (\<Sum>n\<leftarrow>take 500 (nets s). hpwl_net s (endpoints n))
   \<and> length (take 500 (nets s)) \<le> 500"
proof -
  have "endpoint_center s =
     (\<lambda>ep. if take 4 ep = ''top.''
           then map_option
                  (\<lambda>it. (pin_pos_x it + of_int (pin_size it) / 2,
                         pin_pos_y it + of_int (pin_size it) / 2))
                  (List.find (\<lambda>it. pin_name it = drop 4 ep) (pin_items s))
           else map_option
                  (\<lambda>b. (pos_x b + item_w b / 2, pos_y b + item_h b / 2))
                  (List.find (\<lambda>b. inst b = takeWhile (\<lambda>c. c \<noteq> CHR ''.'') ep)
                     (rev (blocks s))))"
    by (rule ext) (rule endpoint_center_eq)
  then show ?thesis
    using hpwl_net_eq [of s eps] by (simp add: update_hpwl_def hpwl_total_eq)
qed

theorem hpwl_net_and_total_witness:
  "hpwl_net wire_window [''top.clk'', ''u1.d'', ''u2.d'', ''u9.z''] = 428
   \<and> hpwl_net wire_window [''u1.q'', ''u9.a''] = 0
   \<and> update_hpwl wire_window = 428
   \<and> hpwl_net
       (window 1000 1000 40 20
          [square_block ''u1'' (-20) (-20) 40, square_block ''u2'' (-10) (-14) 40])
       [''u1.a'', ''u2.b''] = 16"
proof -
  let ?w = "window 1000 1000 40 20
      [square_block ''u1'' (-20) (-20) 40, square_block ''u2'' (-10) (-14) 40]"
  have n1: "hpwl_net wire_window [''top.clk'', ''u1.d'', ''u2.d'', ''u9.z''] = 428"
    using hpwl_net_and_total [of wire_window "[''top.clk'', ''u1.d'', ''u2.d'', ''u9.z'']"]
    by (simp add: wire_window_def square_block_def List.map_filter_simps)
  have n2: "hpwl_net wire_window [''u1.q'', ''u9.a''] = 0"
    using hpwl_net_and_total [of wire_window "[''u1.q'', ''u9.a'']"]
    by (simp add: wire_window_def square_block_def List.map_filter_simps)
  have ns: "nets wire_window =
      [\<lparr>net_name = ''n1'', endpoints = [''top.clk'', ''u1.d'', ''u2.d'', ''u9.z''],
         weight = 3, bw = 1\<rparr>,
       \<lparr>net_name = ''n2'', endpoints = [''u1.q'', ''u9.a''], weight = 1, bw = 1\<rparr>]"
    by (simp add: wire_window_def)
  have tot: "update_hpwl wire_window = 428"
    using hpwl_net_and_total [of wire_window "[]"] by (simp add: ns n1 n2)
  have n3: "hpwl_net ?w [''u1.a'', ''u2.b''] = 16"
    using hpwl_net_and_total [of ?w "[''u1.a'', ''u2.b'']"]
    by (simp add: window_def square_block_def List.map_filter_simps)
  from n1 n2 tot n3 show ?thesis by simp
qed

section \<open>Connectivity aggregation\<close>
























section \<open>Nets of the ingested netlist\<close>

lemma set_fold_extend:
  "set (fold (\<lambda>b eps. eps @ g b) bits acc) = set acc \<union> (\<Union>b \<in> set bits. set (g b))"
  by (induction bits arbitrary: acc) auto

lemma set_net_eps: "set (net_eps be bits) = endpoint_set be bits"
  by (simp add: net_eps_def endpoint_set_def set_fold_extend)

lemma sort_remdups_net_eps:
  "sort (remdups (net_eps be bits)) = sorted_list_of_set (endpoint_set be bits)"
  using sorted_list_of_set_sort_remdups [of "net_eps be bits"] by (simp add: set_net_eps)

lemma length_sort_remdups_net_eps:
  "length (sort (remdups (net_eps be bits))) = card (endpoint_set be bits)"
  using length_remdups_card_conv [of "net_eps be bits"] by (simp add: set_net_eps)

lemma finite_endpoint_set [simp]: "finite (endpoint_set be bits)"
  by (simp add: endpoint_set_def)

lemma nets_loop_eq:
  "nets_loop be ns out =
     out @ map (\<lambda>(nname, bits).
                 \<lparr>net_name = nname, endpoints = sorted_list_of_set (endpoint_set be bits),
                  weight = int (card (endpoint_set be bits)) - 1,
                  bw = max 1 (int (length bits))\<rparr>)
             (filter (\<lambda>(nname, bits). 2 \<le> card (endpoint_set be bits)) ns)"
proof (induction ns arbitrary: out)
  case Nil
  then show ?case by simp
next
  case (Cons a ns)
  obtain nname bits where a: "a = (nname, bits)" by (cases a) auto
  show ?case unfolding a
    by (simp add: Let_def Cons sort_remdups_net_eps length_sort_remdups_net_eps
        del: sorted_list_of_set.sorted_key_list_of_set_unique)
qed

lemma bit_eps_example_top:
  "bit_eps (ym_cells example_top) (ym_ports example_top) =
     [Wire 2 \<mapsto> [''u1.d'', ''u2.d'', ''top.clk''], Wire 3 \<mapsto> [''u1.d'', ''u1.q'']]"
  by (auto simp: example_top_def bit_eps_def bit_eps_cell_def bit_eps_port_def
      setdefault_append_def fun_eq_iff)

lemma nets_out_example_top:
  "nets_out example_top =
     [\<lparr>net_name = ''clk'', endpoints = [''top.clk'', ''u1.d'', ''u2.d''], weight = 2, bw = 1\<rparr>,
      \<lparr>net_name = ''fb'', endpoints = [''u1.d'', ''u1.q''], weight = 1, bw = 2\<rparr>]"
  unfolding nets_out_def bit_eps_example_top
  by (simp add: example_top_def net_eps_def bit_eps_get_def less_eq_char_def less_char_def)

lemma bit_eps_get_setdefault_append:
  "bit_eps_get (setdefault_append b ep m) b' =
     (if b' = b then bit_eps_get m b @ [ep] else bit_eps_get m b')"
  by (simp add: bit_eps_get_def setdefault_append_def)

lemma set_fold_setdefault_append:
  "set (bit_eps_get (fold (\<lambda>b. setdefault_append b ep) bits m) b') =
     set (bit_eps_get m b') \<union> (if b' \<in> set bits then {ep} else {})"
  by (induction bits arbitrary: m) (auto simp: bit_eps_get_setdefault_append)

lemma set_fold_connections:
  "set (bit_eps_get (fold (\<lambda>(pn, bs). fold (\<lambda>b. setdefault_append b (f pn)) bs) conns m) b') =
     set (bit_eps_get m b') \<union> {f pn | pn bs. (pn, bs) \<in> set conns \<and> b' \<in> set bs}"
proof (induction conns arbitrary: m)
  case Nil
  then show ?case by simp
next
  case (Cons a conns)
  obtain pn bs where a: "a = (pn, bs)" by (cases a) auto
  let ?F = "\<lambda>(pn, bs). fold (\<lambda>b. setdefault_append b (f pn)) bs"
  let ?m = "fold (\<lambda>b. setdefault_append b (f pn)) bs m"
  let ?S = "{f pn | pn bs. (pn, bs) \<in> set conns \<and> b' \<in> set bs}"
  have "fold ?F (a # conns) m = fold ?F conns ?m" by (simp add: a)
  then have "set (bit_eps_get (fold ?F (a # conns) m) b') =
      set (bit_eps_get (fold ?F conns ?m) b')" by (rule arg_cong)
  also have "\<dots> = set (bit_eps_get ?m b') \<union> ?S" by (rule Cons.IH)
  also have "set (bit_eps_get ?m b') =
      set (bit_eps_get m b') \<union> (if b' \<in> set bs then {f pn} else {})"
    by (rule set_fold_setdefault_append)
  also have "(set (bit_eps_get m b') \<union> (if b' \<in> set bs then {f pn} else {})) \<union> ?S =
      set (bit_eps_get m b') \<union> {f pn | pn bs. (pn, bs) \<in> set (a # conns) \<and> b' \<in> set bs}"
    unfolding a by auto
  finally show ?case .
qed

lemma set_bit_eps_cell:
  "set (bit_eps_get (bit_eps_cell ic m) b') =
     set (bit_eps_get m b')
       \<union> {fst ic @ ''.'' @ pn | pn bs. (pn, bs) \<in> set (connections (snd ic)) \<and> b' \<in> set bs}"
  unfolding bit_eps_cell_def
  by (rule set_fold_connections [where f = "\<lambda>pn. fst ic @ ''.'' @ pn"])

lemma set_fold_bit_eps_cell:
  "set (bit_eps_get (fold bit_eps_cell cells m) b') =
     set (bit_eps_get m b')
       \<union> {i @ ''.'' @ pn | i c pn bs.
            (i, c) \<in> set cells \<and> (pn, bs) \<in> set (connections c) \<and> b' \<in> set bs}"
proof (induction cells arbitrary: m)
  case Nil
  then show ?case by simp
next
  case (Cons a cells)
  let ?S = "{i @ ''.'' @ pn | i c pn bs.
            (i, c) \<in> set cells \<and> (pn, bs) \<in> set (connections c) \<and> b' \<in> set bs}"
  let ?A = "{fst a @ ''.'' @ pn | pn bs. (pn, bs) \<in> set (connections (snd a)) \<and> b' \<in> set bs}"
  have "fold bit_eps_cell (a # cells) m = fold bit_eps_cell cells (bit_eps_cell a m)"
    by simp
  then have "set (bit_eps_get (fold bit_eps_cell (a # cells) m) b') =
      set (bit_eps_get (fold bit_eps_cell cells (bit_eps_cell a m)) b')" by (rule arg_cong)
  also have "\<dots> = set (bit_eps_get (bit_eps_cell a m) b') \<union> ?S" by (rule Cons.IH)
  also have "set (bit_eps_get (bit_eps_cell a m) b') = set (bit_eps_get m b') \<union> ?A"
    by (rule set_bit_eps_cell)
  also have "(set (bit_eps_get m b') \<union> ?A) \<union> ?S =
      set (bit_eps_get m b')
       \<union> {i @ ''.'' @ pn | i c pn bs.
            (i, c) \<in> set (a # cells) \<and> (pn, bs) \<in> set (connections c) \<and> b' \<in> set bs}"
    by (cases a) auto
  finally show ?case .
qed

lemma set_bit_eps_port:
  "set (bit_eps_get (bit_eps_port pp m) b') =
     set (bit_eps_get m b') \<union> (if b' \<in> set (port_bits (snd pp)) then {''top.'' @ fst pp} else {})"
  unfolding bit_eps_port_def by (rule set_fold_setdefault_append)

lemma set_fold_bit_eps_port:
  "set (bit_eps_get (fold bit_eps_port ps m) b') =
     set (bit_eps_get m b')
       \<union> {''top.'' @ pn | pn p. (pn, p) \<in> set ps \<and> b' \<in> set (port_bits p)}"
proof (induction ps arbitrary: m)
  case Nil
  then show ?case by simp
next
  case (Cons a ps)
  let ?S = "{''top.'' @ pn | pn p. (pn, p) \<in> set ps \<and> b' \<in> set (port_bits p)}"
  let ?A = "(if b' \<in> set (port_bits (snd a)) then {''top.'' @ fst a} else {})"
  have "fold bit_eps_port (a # ps) m = fold bit_eps_port ps (bit_eps_port a m)"
    by simp
  then have "set (bit_eps_get (fold bit_eps_port (a # ps) m) b') =
      set (bit_eps_get (fold bit_eps_port ps (bit_eps_port a m)) b')" by (rule arg_cong)
  also have "\<dots> = set (bit_eps_get (bit_eps_port a m) b') \<union> ?S" by (rule Cons.IH)
  also have "set (bit_eps_get (bit_eps_port a m) b') = set (bit_eps_get m b') \<union> ?A"
    by (rule set_bit_eps_port)
  also have "(set (bit_eps_get m b') \<union> ?A) \<union> ?S =
      set (bit_eps_get m b')
       \<union> {''top.'' @ pn | pn p. (pn, p) \<in> set (a # ps) \<and> b' \<in> set (port_bits p)}"
    by (cases a) auto
  finally show ?case .
qed

lemma bit_eps_get_empty: "bit_eps_get Map.empty b = []"
  by (simp add: bit_eps_get_def)

lemma set_bit_eps:
  "set (bit_eps_get (bit_eps (ym_cells topm) (ym_ports topm)) b) = declared_endpoints topm b"
  unfolding bit_eps_def set_fold_bit_eps_port set_fold_bit_eps_cell bit_eps_get_empty
    declared_endpoints_def
  by simp

lemma endpoint_set_declared:
  "endpoint_set (bit_eps (ym_cells topm) (ym_ports topm)) bits = net_endpoint_union topm bits"
  by (simp add: endpoint_set_def net_endpoint_union_def set_bit_eps)

lemma nets_out_eq:
  "nets_out topm =
     map (\<lambda>(nname, bits).
            \<lparr>net_name = nname,
             endpoints = sorted_list_of_set (net_endpoint_union topm bits),
             weight = int (card (net_endpoint_union topm bits)) - 1,
             bw = max 1 (int (length bits))\<rparr>)
         (filter (\<lambda>(nname, bits). 2 \<le> card (net_endpoint_union topm bits)) (ym_netnames topm))"
  by (simp add: nets_out_def nets_loop_eq endpoint_set_declared)

lemma finite_net_endpoint_union [simp]: "finite (net_endpoint_union topm bits)"
  using finite_endpoint_set [of "bit_eps (ym_cells topm) (ym_ports topm)" bits]
  by (simp add: endpoint_set_declared)

lemma mods_base_loop_total:
  "\<forall>ic \<in> set cells.
      0 \<le> to_float (case map_of modules (cell_type (snd ic)) of
                       None \<Rightarrow> None | Some ym \<Rightarrow> ym_area_hint ym) 300 \<Longrightarrow>
   \<exists>ms. mods_base_loop modules cells = Inr ms"
proof (induction cells)
  case Nil
  then show ?case by simp
next
  case (Cons a cells)
  obtain i c where a: "a = (i, c)" by (cases a) auto
  from Cons obtain ms where "mods_base_loop modules cells = Inr ms" by auto
  then show ?case using Cons.prems unfolding a by (simp add: Let_def)
qed

lemma build_design_total:
  assumes "map_of modules tp = Some topm"
    and "\<forall>ic \<in> set (ym_cells topm).
           0 \<le> to_float (case map_of modules (cell_type (snd ic)) of
                            None \<Rightarrow> None | Some ym \<Rightarrow> ym_area_hint ym) 300"
  shows "\<exists>d. build_design modules tp dw dh g cm msf msp = Inr d \<and> d_nets d = nets_out topm"
proof -
  from mods_base_loop_total [OF assms(2)] obtain ms where
    "mods_base_loop modules (ym_cells topm) = Inr ms" by blast
  then obtain mo where "build_modules modules (ym_cells topm) dw dh g cm msf msp = Inr mo"
    by (simp add: build_modules_def Let_def)
  then show ?thesis using assms(1) by (simp add: build_design_def)
qed

text \<open>
  C7: when the top module is in the netlist and no cell has a negative area,
  \<open>build_design\<close> returns a design whose nets are, in the order of \<open>netnames\<close>, exactly the
  declared nets whose bits have two or more distinct endpoints; the endpoint list of an
  emitted net is the sorted, duplicate-free list of the union of the endpoints of its
  bits (\<open>inst.port\<close> for each cell connection and \<open>top.pin\<close> for each top port that lists
  the bit), and its \<open>bw\<close> is \<open>max(1, number of bits)\<close>.
\<close>

theorem build_design_nets:
  assumes "map_of modules tp = Some topm"
    and "\<forall>ic \<in> set (ym_cells topm).
           0 \<le> to_float (case map_of modules (cell_type (snd ic)) of
                            None \<Rightarrow> None | Some ym \<Rightarrow> ym_area_hint ym) 300"
  shows "\<exists>d. build_design modules tp dw dh g cm msf msp = Inr d
     \<and> d_nets d =
         map (\<lambda>(nname, bits).
                \<lparr>net_name = nname,
                 endpoints = sorted_list_of_set (net_endpoint_union topm bits),
                 weight = int (card (net_endpoint_union topm bits)) - 1,
                 bw = max 1 (int (length bits))\<rparr>)
             (filter (\<lambda>(nname, bits). 2 \<le> card (net_endpoint_union topm bits))
                (ym_netnames topm))
     \<and> (\<forall>n \<in> set (d_nets d).
           sorted (endpoints n) \<and> distinct (endpoints n) \<and> 2 \<le> length (endpoints n))"
proof -
  from build_design_total [OF assms] obtain d where
    d: "build_design modules tp dw dh g cm msf msp = Inr d" and n: "d_nets d = nets_out topm"
    by blast
  have "sorted (endpoints x) \<and> distinct (endpoints x) \<and> 2 \<le> length (endpoints x)"
    if "x \<in> set (nets_out topm)" for x
  proof -
    from that obtain bits where
      e: "endpoints x = sorted_list_of_set (net_endpoint_union topm bits)"
      and c: "2 \<le> card (net_endpoint_union topm bits)"
      unfolding nets_out_eq by auto
    show ?thesis unfolding e using c by simp
  qed
  then show ?thesis using d n nets_out_eq [of topm] by auto
qed

theorem build_design_nets_witness:
  "\<exists>d. build_design example_netlist ''top'' 280 280 20 40 (1 / 2) 10 = Inr d
     \<and> d_nets d =
         [\<lparr>net_name = ''clk'', endpoints = [''top.clk'', ''u1.d'', ''u2.d''], weight = 2, bw = 1\<rparr>,
          \<lparr>net_name = ''fb'', endpoints = [''u1.d'', ''u1.q''], weight = 1, bw = 2\<rparr>]"
proof -
  have t: "map_of example_netlist ''top'' = Some example_top"
    by (simp add: example_netlist_def)
  have a: "\<forall>ic \<in> set (ym_cells example_top).
           0 \<le> to_float (case map_of example_netlist (cell_type (snd ic)) of
                            None \<Rightarrow> None | Some ym \<Rightarrow> ym_area_hint ym) 300"
    by (simp add: example_netlist_def example_top_def to_float_def)
  from build_design_nets [OF t a, of 280 280 20 40 "1 / 2" 10] obtain d where
    d: "build_design example_netlist ''top'' 280 280 20 40 (1 / 2) 10 = Inr d"
    and n: "d_nets d =
         map (\<lambda>(nname, bits).
                \<lparr>net_name = nname,
                 endpoints = sorted_list_of_set (net_endpoint_union example_top bits),
                 weight = int (card (net_endpoint_union example_top bits)) - 1,
                 bw = max 1 (int (length bits))\<rparr>)
             (filter (\<lambda>(nname, bits). 2 \<le> card (net_endpoint_union example_top bits))
                (ym_netnames example_top))"
    by blast
  have "d_nets d = nets_out example_top" unfolding n by (simp add: nets_out_eq)
  with d show ?thesis unfolding nets_out_example_top by blast
qed

text \<open>
  C10: the \<open>weight\<close> of every emitted net is the number of its distinct endpoints minus
  one, hence at least one; the connectivity aggregation does not read it.
\<close>

theorem emitted_weight:
  "(\<forall>n \<in> set (nets_out topm).
      weight n = int (card (set (endpoints n))) - 1 \<and> distinct (endpoints n) \<and> 1 \<le> weight n)
   \<and> build_connectivity enum (map (\<lambda>n. n\<lparr>weight := f n\<rparr>) ns) = build_connectivity enum ns"
proof -
  let ?be = "bit_eps (ym_cells topm) (ym_ports topm)"
  have "weight n = int (card (set (endpoints n))) - 1 \<and> distinct (endpoints n) \<and> 1 \<le> weight n"
    if "n \<in> set (nets_out topm)" for n
  proof -
    from that obtain nname bits where
      n: "endpoints n = sorted_list_of_set (endpoint_set ?be bits)"
      and w: "weight n = int (card (endpoint_set ?be bits)) - 1"
      and c: "2 \<le> card (endpoint_set ?be bits)"
      unfolding nets_out_def nets_loop_eq by auto
    show ?thesis unfolding n w using c by simp
  qed
  moreover have "fold (connect_net enum) (map (\<lambda>n. n\<lparr>weight := f n\<rparr>) ns) st
      = fold (connect_net enum) ns st" for st
    by (induction ns arbitrary: st) (simp_all add: connect_net_def)
  then have "build_connectivity enum (map (\<lambda>n. n\<lparr>weight := f n\<rparr>) ns) = build_connectivity enum ns"
    by (simp add: build_connectivity_def)
  ultimately show ?thesis by blast
qed

theorem emitted_weight_witness:
  "\<lparr>net_name = ''clk'', endpoints = [''top.clk'', ''u1.d'', ''u2.d''], weight = 2, bw = 1\<rparr>
     \<in> set (nets_out example_top)
   \<and> (2 :: int) = int (card (set [''top.clk'', ''u1.d'', ''u2.d''])) - 1
   \<and> (1 :: int) \<le> 2"
  using emitted_weight [of example_top] unfolding nets_out_example_top by simp

section \<open>Initial packing\<close>

lemma py_round_numeral [simp]: "py_round (numeral n) = numeral n"
  using py_round_of_int [of "numeral n"] by simp

lemma sqrt_100: "sqrt 100 = 10"
  using real_sqrt_abs [of 10] by simp

lemma sqrt_400: "sqrt 400 = 20"
  using real_sqrt_abs [of 20] by simp

lemma pack_two:
  assumes a: "map_of modules (cell_type ca) = Some ya" "ym_area_hint ya = Some 100"
    and b: "map_of modules (cell_type cb) = Some yb" "ym_area_hint yb = Some 400"
    and g: "0 \<le> g" "g \<le> 25"
    and core: "dw - 2 * cm = 200" "dh - 2 * cm = 200"
  shows "build_modules modules [(ia, ca), (ib, cb)] dw dh g cm (1 / 2) 10 =
     Inr [\<lparr>mo_inst = ia, mo_type = cell_type ca, mo_area = 100, mo_w = 50, mo_h = 50,
           mo_orient = ''N'', mo_x = cm + g, mo_y = cm + g\<rparr>,
          \<lparr>mo_inst = ib, mo_type = cell_type cb, mo_area = 400, mo_w = 100, mo_h = 100,
           mo_orient = ''N'', mo_x = cm + g + (50 + g), mo_y = cm + g\<rparr>]"
proof -
  have mb: "mods_base_loop modules [(ia, ca), (ib, cb)] =
      Inr [\<lparr>mb_inst = ia, mb_type = cell_type ca, mb_area = 100, mb_base = 10\<rparr>,
           \<lparr>mb_inst = ib, mb_type = cell_type cb, mb_area = 400, mb_base = 20\<rparr>]"
    by (simp add: a b to_float_def sqrt_100 sqrt_400)
  have ms: "max (2 * g) 10 \<le> 50" using g by simp
  have dw: "dw - cm = 200 + cm" using core by simp
  show ?thesis
    unfolding build_modules_def mb
    using g ms by (simp add: core py_max_def Let_def dw max_def)
qed

text \<open>
  C2 (as stated): the two modules get the sides 10 and 20. On a die of 280 by 280 with
  margin 40 (core 200 by 200) and grid 20, the code gives the sides 50 and 100: the scale
  factor is \<open>k = 100 / 20 = 5\<close> and the sides are \<open>round(10 * 5)\<close> and \<open>round(20 * 5)\<close>.
\<close>

theorem initial_sides_counterexample:
  "sides_of (build_modules two_modules two_cells 280 280 20 40 (1 / 2) 10) = [50, 100]
   \<and> sides_of (build_modules two_modules two_cells 280 280 20 40 (1 / 2) 10) \<noteq> [10, 20]"
proof -
  have "build_modules two_modules [(''u1'', \<lparr>cell_type = ''small'', connections = []\<rparr>),
      (''u2'', \<lparr>cell_type = ''big'', connections = []\<rparr>)] 280 280 20 40 (1 / 2) 10
    = Inr [\<lparr>mo_inst = ''u1'', mo_type = ''small'', mo_area = 100, mo_w = 50, mo_h = 50,
           mo_orient = ''N'', mo_x = 40 + 20, mo_y = 40 + 20\<rparr>,
          \<lparr>mo_inst = ''u2'', mo_type = ''big'', mo_area = 400, mo_w = 100, mo_h = 100,
           mo_orient = ''N'', mo_x = 40 + 20 + (50 + 20), mo_y = 40 + 20\<rparr>]"
    using pack_two [where modules = two_modules
          and ca = "\<lparr>cell_type = ''small'', connections = []\<rparr>"
          and cb = "\<lparr>cell_type = ''big'', connections = []\<rparr>"
          and ya = "\<lparr>ym_ports = [], ym_cells = [], ym_netnames = [], ym_area_hint = Some 100\<rparr>"
          and yb = "\<lparr>ym_ports = [], ym_cells = [], ym_netnames = [], ym_area_hint = Some 400\<rparr>"
          and g = 20 and cm = 40 and dw = 280 and dh = 280 and ia = "''u1''" and ib = "''u2''"]
    by (simp add: two_modules_def)
  then show ?thesis by (simp add: sides_of_def two_cells_def)
qed

text \<open>
  C2 (amended): for two modules of area 100 and 400, \<open>maxSideFrac = 0.5\<close>,
  \<open>minSidePx = 10\<close>, a core of 200 by 200 and a grid from 0 to 25, the computed sides are
  50 and 100, and the modules are placed in one row, the first at
  \<open>(margin + grid, margin + grid)\<close> and the second \<open>50 + grid\<close> to its right, inside the
  core and without overlap.
\<close>

theorem initial_packing_two_modules:
  assumes "map_of modules (cell_type ca) = Some ya" and "ym_area_hint ya = Some 100"
    and "map_of modules (cell_type cb) = Some yb" and "ym_area_hint yb = Some 400"
    and "0 \<le> g" and "g \<le> 25"
    and "dw - 2 * cm = 200" and "dh - 2 * cm = 200"
  shows "\<exists>a b. build_modules modules [(ia, ca), (ib, cb)] dw dh g cm (1 / 2) 10 = Inr [a, b]
     \<and> mo_w a = 50 \<and> mo_h a = 50 \<and> mo_w b = 100 \<and> mo_h b = 100
     \<and> mo_x a = cm + g \<and> mo_y a = cm + g
     \<and> mo_x b = mo_x a + 50 + g \<and> mo_y b = mo_y a
     \<and> mo_x b + mo_w b \<le> dw - cm
     \<and> mo_disjoint a b"
  using pack_two [OF assms, of ia ib] assms(5,6,7)
  by (simp add: mo_disjoint_def)

theorem initial_packing_two_modules_witness:
  "\<exists>a b. build_modules two_modules two_cells 280 280 20 40 (1 / 2) 10 = Inr [a, b]
     \<and> mo_w a = 50 \<and> mo_h a = 50 \<and> mo_w b = 100 \<and> mo_h b = 100
     \<and> mo_x a = 60 \<and> mo_y a = 60 \<and> mo_x b = 130 \<and> mo_y b = 60
     \<and> mo_disjoint a b"
proof -
  have "\<exists>a b. build_modules two_modules [(''u1'', \<lparr>cell_type = ''small'', connections = []\<rparr>),
      (''u2'', \<lparr>cell_type = ''big'', connections = []\<rparr>)] 280 280 20 40 (1 / 2) 10 = Inr [a, b]
     \<and> mo_w a = 50 \<and> mo_h a = 50 \<and> mo_w b = 100 \<and> mo_h b = 100
     \<and> mo_x a = 40 + 20 \<and> mo_y a = 40 + 20
     \<and> mo_x b = mo_x a + 50 + 20 \<and> mo_y b = mo_y a
     \<and> mo_x b + mo_w b \<le> 280 - 40
     \<and> mo_disjoint a b"
    by (rule initial_packing_two_modules [where ya = "\<lparr>ym_ports = [], ym_cells = [],
            ym_netnames = [], ym_area_hint = Some 100\<rparr>"
          and yb = "\<lparr>ym_ports = [], ym_cells = [], ym_netnames = [], ym_area_hint = Some 400\<rparr>"])
      (simp_all add: two_modules_def)
  then show ?thesis by (auto simp: two_cells_def)
qed

section \<open>Offsets of the pin placement file\<close>

lemma py_int_numeral [simp]: "py_int (numeral n) = numeral n"
  using py_int_of_int [of "numeral n"] by simp

lemma filter_side_lines:
  "filter (\<lambda>l. fst (snd l) = sd) (side_lines s sd') = (if sd = sd' then side_lines s sd' else [])"
  by (auto simp: side_lines_def filter_map comp_def split_def filter_empty_conv)

lemma side_offsets_eq:
  "side_offsets s sd =
     map snd (pins_loop s (step_um s) (side_max_off s sd) (pins_grouped_sorted s sd) (- (10 ^ 9)))"
  by (cases sd)
    (simp_all add: side_offsets_def write_pin_placement_cfg_def filter_side_lines,
     simp_all add: side_lines_def comp_def split_def)

lemma side_max_off_eq:
  "side_max_off s sd =
     (if sd = SideN \<or> sd = SideS then die_w s - 2 * margin s else die_h s - 2 * margin s)"
proof -
  have r: "rect_right (core_rect s) * PX_TO_UM = of_int (die_w s - margin s)"
    "rect_left (core_rect s) * PX_TO_UM = of_int (margin s)"
    "(of_int (die_h s) - rect_top (core_rect s)) * PX_TO_UM = of_int (die_h s - margin s)"
    "(of_int (die_h s) - rect_bottom (core_rect s)) * PX_TO_UM = of_int (margin s)"
    by (simp_all add: core_rect_def QRectF_def rect_left_def rect_right_def rect_top_def
        rect_bottom_def PX_TO_UM_def)
  show ?thesis unfolding side_max_off_def r py_round_of_int by (simp add: Let_def)
qed

lemma two_bus_window_north:
  "side_offsets two_bus_window SideN =
     [780, 800, 820, 840, 860, 880, 900, 920, 920, 920, 920, 920, 920, 920, 920, 920]"
  by code_simp

text \<open>
  C1: the offsets emitted for one side are to be strictly increasing, a bit that would
  not pass the cursor being forced to \<open>cursor + step\<close>. The code forces it to
  \<open>min(cursor + step, max_off)\<close>: on the north side of a core 920 wide with step 20, two
  buses of width 8 placed at \<open>x = 920\<close> and \<open>x = 940\<close> are emitted at 780, 800, ..., 900
  and then nine times at 920, so the offsets are not strictly increasing although the
  side has 47 positions for 16 bits.
\<close>

theorem pin_offsets_stack_at_max_off:
  "side_offsets two_bus_window SideN =
     [780, 800, 820, 840, 860, 880, 900, 920, 920, 920, 920, 920, 920, 920, 920, 920]
   \<and> \<not> sorted_wrt (<) (side_offsets two_bus_window SideN)
   \<and> side_max_off two_bus_window SideN = 920 \<and> step_um two_bus_window = 20"
  unfolding two_bus_window_north
  by (simp add: side_max_off_eq step_um_def PX_TO_UM_def two_bus_window_def)

end
